theory Spec2Isabelle
  imports Main "HOL-Library.AList"
begin

section \<open>Sink coverage analyser (\<^verbatim>\<open>sinks_analyser.py\<close>)\<close>

text \<open>
  A shallow embedding of the class \<^verbatim>\<open>Analysis\<close> of
  \<^verbatim>\<open>src/fuzz_introspector/analyses/sinks_analyser.py\<close>. Python strings are
  \<open>string\<close>, Python dictionaries are association lists in insertion order
  (\<open>AList.update\<close> overwrites in place or appends, as an assignment
  \<^verbatim>\<open>d[k] = v\<close> does), exceptions are the left summand of a sum type.
\<close>

subsection \<open>Python built-ins used by the analyser\<close>

datatype error = KeyError | IndexError | ValueError

text \<open>Truthiness of an \<^verbatim>\<open>Optional[str]\<close>: \<^verbatim>\<open>None\<close> and \<^verbatim>\<open>""\<close> are falsy.\<close>

fun truthy :: "string option \<Rightarrow> bool" where
  "truthy None = False"
| "truthy (Some s) = (s \<noteq> [])"

text \<open>\<^verbatim>\<open>x if x else ""\<close> on an \<^verbatim>\<open>Optional[str]\<close>.\<close>

fun or_empty :: "string option \<Rightarrow> string" where
  "or_empty None = []"
| "or_empty (Some s) = s"

text \<open>\<^verbatim>\<open>"%s" % x\<close> on an \<^verbatim>\<open>Optional[str]\<close>: \<^verbatim>\<open>None\<close> prints as the text \<^verbatim>\<open>None\<close>.\<close>

fun fmt_s :: "string option \<Rightarrow> string" where
  "fmt_s None = ''None''"
| "fmt_s (Some s) = s"

text \<open>Decimal rendering of a Python \<^verbatim>\<open>int\<close> (\<^verbatim>\<open>"%s" % n\<close>, \<^verbatim>\<open>f"{n}"\<close>).\<close>

fun str_nat :: "nat \<Rightarrow> string" where
  "str_nat n =
     (if n < 10 then [''0123456789'' ! n]
      else str_nat (n div 10) @ [''0123456789'' ! (n mod 10)])"

definition str_int :: "int \<Rightarrow> string" where
  "str_int i = (if i < 0 then CHR ''-'' # str_nat (nat (- i)) else str_nat (nat i))"

text \<open>\<^verbatim>\<open>f"{b}"\<close> on a \<^verbatim>\<open>bool\<close>.\<close>

definition str_bool :: "bool \<Rightarrow> string" where
  "str_bool b = (if b then ''True'' else ''False'')"

text \<open>\<^verbatim>\<open>s.split(sep)\<close> for a one-character separator: never empty.\<close>

fun py_split :: "char \<Rightarrow> string \<Rightarrow> string list" where
  "py_split sep [] = [[]]"
| "py_split sep (c # cs) =
     (if c = sep then [] # py_split sep cs
      else (case py_split sep cs of
              w # ws \<Rightarrow> (c # w) # ws
            | [] \<Rightarrow> [[c]]))"

text \<open>\<^verbatim>\<open>s.rsplit(sep, 1)\<close> for a one-character separator: at most one split,
  made at the last occurrence of the separator.\<close>

definition py_rsplit1 :: "char \<Rightarrow> string \<Rightarrow> string list" where
  "py_rsplit1 sep s =
     (if sep \<in> set s
      then [rev (tl (dropWhile (\<lambda>c. c \<noteq> sep) (rev s))), rev (takeWhile (\<lambda>c. c \<noteq> sep) (rev s))]
      else [s])"

text \<open>
  \<^verbatim>\<open>int(s)\<close> on a string, base ten: surrounding white space is stripped, one sign
  is allowed, then decimal digits with single underscores between digits. The
  result is \<open>None\<close> where Python raises \<^verbatim>\<open>ValueError\<close>. The white space that
  \<^verbatim>\<open>int\<close> strips is tab, line feed, vertical tab, form feed, carriage return and
  space, and of the code points from 0x80 to 0xFF the two Unicode spaces 0x85
  and 0xA0; the separators 0x1C to 0x1F are not stripped.
\<close>

definition py_isspace :: "char \<Rightarrow> bool" where
  "py_isspace c \<longleftrightarrow> c \<in> set [CHR 0x09, CHR 0x0A, CHR 0x0B, CHR 0x0C, CHR 0x0D,
     CHR 0x20, CHR 0x85, CHR 0xA0]"

definition py_strip :: "string \<Rightarrow> string" where
  "py_strip s = rev (dropWhile py_isspace (rev (dropWhile py_isspace s)))"

definition is_digit :: "char \<Rightarrow> bool" where
  "is_digit c \<longleftrightarrow> c \<in> set ''0123456789''"

definition digit_val :: "char \<Rightarrow> nat" where
  "digit_val c = of_char c - 48"

fun parse_digits :: "nat \<Rightarrow> string \<Rightarrow> nat option" where
  "parse_digits acc [] = Some acc"
| "parse_digits acc [c] = (if is_digit c then Some (10 * acc + digit_val c) else None)"
| "parse_digits acc (c # d # ds) =
     (if is_digit c then parse_digits (10 * acc + digit_val c) (d # ds)
      else if c = CHR ''_'' \<and> is_digit d then parse_digits (10 * acc + digit_val d) ds
      else None)"

definition py_int :: "string \<Rightarrow> int option" where
  "py_int s =
     (let t = py_strip s;
          neg = (t \<noteq> [] \<and> hd t = CHR ''-'');
          body = (if t \<noteq> [] \<and> (hd t = CHR ''-'' \<or> hd t = CHR ''+'') then tl t else t)
      in case body of
           [] \<Rightarrow> None
         | d # ds \<Rightarrow>
             if is_digit d
             then map_option (\<lambda>n. if neg then - int n else int n) (parse_digits (digit_val d) ds)
             else None)"

text \<open>\<^verbatim>\<open>list(set(xs))\<close>: the distinct elements of \<open>xs\<close>. Python fixes no order on
  the result; the model lists them in order of last occurrence, and no theorem
  below depends on that order.\<close>

definition list_set :: "'a list \<Rightarrow> 'a list" where
  "list_set xs = remdups xs"

subsection \<open>Data model\<close>

text \<open>
  Modelled from the spec: the class \<^verbatim>\<open>CalltreeCallsite\<close> of the module
  \<^verbatim>\<open>cfg_load\<close>, of which the analyser reads the attributes below. A call site
  is one static call edge: source function name, source file, line number,
  destination function name, destination file, and the parent call-tree node. The
  source function, the source file and the parent may be absent (\<^verbatim>\<open>None\<close>); the
  analyser also guards the destination file of a parent against a falsy value.
  The destination function name is the join key of the index, a string.
\<close>

datatype calltree_callsite = CalltreeCallsite
  (src_function_name: "string option")
  (src_function_source_file: "string option")
  (src_linenumber: int)
  (dst_function_name: string)
  (dst_function_source_file: "string option")
  (parent_calltree_callsite: "calltree_callsite option")

text \<open>
  Modelled from the spec: the class \<^verbatim>\<open>FunctionProfile\<close> of the module
  \<^verbatim>\<open>function_profile\<close>: name, declaring source file, the functions that call it,
  the fuzzers seen to reach it, and its own outgoing call sites, a mapping from
  the callee's name to the call-site descriptor string.
\<close>

record function_profile =
  function_name :: string
  function_source_file :: string
  incoming_references :: "string list"
  reached_by_fuzzers :: "string list"
  callsite :: "(string \<times> string) list"

text \<open>
  Modelled from the spec: the class \<^verbatim>\<open>FuzzerProfile\<close> of the module
  \<^verbatim>\<open>fuzzer_profile\<close>: the call-depth structure (absent when not computed, and
  read only by \<^verbatim>\<open>cfg_load.extract_all_callsites\<close>, so its type is left open), the
  profile's own function registry, and the target language.
\<close>

record 'cd fuzzer_profile =
  function_call_depths :: "'cd option"
  all_class_functions :: "(string \<times> function_profile) list"
  target_lang :: string

text \<open>
  Modelled from the spec: the class \<^verbatim>\<open>MergedProjectProfile\<close> of the module
  \<^verbatim>\<open>project_profile\<close>: the project-wide function registry and the coverage
  index. \<open>runtime_coverage\<close> stands for the coverage object's one query
  \<^verbatim>\<open>is_func_lineno_hit(func, lineno)\<close>.
\<close>

record project_profile =
  all_functions :: "(string \<times> function_profile) list"
  runtime_coverage :: "string \<Rightarrow> int \<Rightarrow> bool"

type_synonym toc = "(string \<times> string \<times> int) list"

text \<open>The collaborators of other modules, taken as parameters:
  \<^verbatim>\<open>utils.demangle_cpp_func\<close>, \<^verbatim>\<open>cfg_load.extract_all_callsites\<close>, the three
  \<^verbatim>\<open>html_helpers\<close> functions (the header function also extends the table of
  contents it is given), and \<^verbatim>\<open>str\<close> on a list of strings.\<close>

record 'cd collaborators =
  demangle_cpp_func :: "string \<Rightarrow> string"
  extract_all_callsites :: "'cd \<Rightarrow> calltree_callsite list"
  html_add_header_with_link :: "string \<Rightarrow> int \<Rightarrow> toc \<Rightarrow> string \<times> toc"
  html_create_table_head :: "string \<Rightarrow> (string \<times> string) list \<Rightarrow> string"
  html_table_add_row :: "string list \<Rightarrow> string"
  str_of_list :: "string list \<Rightarrow> string"

subsection \<open>The sink catalogue\<close>

definition SINK_FUNCTION :: "(string \<times> (string \<times> string) list) list" where
  "SINK_FUNCTION =
    [(''c-cpp'',
       [('''', ''system''), ('''', ''execl''), ('''', ''execve''), ('''', ''wordexp''),
        ('''', ''popen''), ('''', ''fdopen'')]),
     (''python'',
       [('''', ''exec''), ('''', ''eval''),
        (''subprocess'', ''call''), (''subprocess'', ''run''), (''subprocess'', ''Popen''),
        (''subprocess'', ''check_output''),
        (''os'', ''system''), (''os'', ''popen''), (''os'', ''spawnlpe''), (''os'', ''spawnve''),
        (''os'', ''execl''), (''os'', ''execve''),
        (''asyncio'', ''create_subprocess_shell''), (''asyncio'', ''create_subprocess_exec''),
        (''asyncio'', ''run''), (''asyncio'', ''sleep''),
        (''logging.config'', ''listen''),
        (''code.InteractiveInterpreter'', ''runsource''),
        (''code.InteractiveInterpreter'', ''runcode''),
        (''code.InteractiveInterpreter'', ''write''),
        (''code.InteractiveConsole'', ''push''),
        (''code.InteractiveConsole'', ''interact''),
        (''code.InteractiveConsole'', ''raw_input''),
        (''code'', ''interact''), (''code'', ''compile_command'')]),
     (''jvm'',
       [(''java.lang.Runtime'', ''exec''),
        (''javax.xml.xpath.XPath'', ''compile''), (''javax.xml.xpath.XPath'', ''evaluate''),
        (''java.lang.Thread'', ''sleep''), (''java.lang.Thread'', ''run''),
        (''java.lang.Runnable'', ''run''),
        (''java.util.concurrent.Executor'', ''execute''),
        (''java.util.concurrent.Callable'', ''call''),
        (''java.lang.System'', ''console''), (''java.lang.System'', ''load''),
        (''java.lang.System'', ''loadLibrary''), (''java.lang.System'', ''apLibraryName''),
        (''java.lang.System'', ''runFinalization''), (''java.lang.System'', ''setErr''),
        (''java.lang.System'', ''setIn''), (''java.lang.System'', ''setOut''),
        (''java.lang.System'', ''setProperties''), (''java.lang.System'', ''setProperty''),
        (''java.lang.System'', ''setSecurityManager''),
        (''java.lang.ProcessBuilder'', ''directory''),
        (''java.lang.ProcessBuilder'', ''inheritIO''),
        (''java.lang.ProcessBuilder'', ''command''),
        (''java.lang.ProcessBuilder'', ''edirectError''),
        (''java.lang.ProcessBuilder'', ''redirectErrorStream''),
        (''java.lang.ProcessBuilder'', ''redirectInput''),
        (''java.lang.ProcessBuilder'', ''redirectOutput''),
        (''java.lang.ProcessBuilder'', ''start'')])]"

subsection \<open>Descriptor resolution: \<^verbatim>\<open>_get_source_file\<close>, \<^verbatim>\<open>_get_parent_func_name\<close>\<close>

text \<open>Both return the attribute they read first unless it is falsy; only the
  branch with a parent replaces a falsy value by the empty string.\<close>

definition get_source_file :: "calltree_callsite \<Rightarrow> string option" where
  "get_source_file cs =
     (let src_file = src_function_source_file cs in
      if \<not> truthy src_file then
        (case parent_calltree_callsite cs of
           Some parent \<Rightarrow> Some (or_empty (dst_function_source_file parent))
         | None \<Rightarrow> src_file)
      else src_file)"

definition get_parent_func_name :: "calltree_callsite \<Rightarrow> string option" where
  "get_parent_func_name cs =
     (let func_file = src_function_source_file cs in
      if \<not> truthy func_file then
        (case parent_calltree_callsite cs of
           Some parent \<Rightarrow> Some (or_empty (Some (dst_function_name parent)))
         | None \<Rightarrow> func_file)
      else func_file)"

text \<open>The string \<^verbatim>\<open>"%s#%s:%s" % (file, caller, line)\<close> of
  \<^verbatim>\<open>map_function_callsite\<close>.\<close>

definition descriptor :: "calltree_callsite \<Rightarrow> string" where
  "descriptor cs =
     fmt_s (get_source_file cs) @ ''#'' @ fmt_s (get_parent_func_name cs) @ '':''
       @ str_int (src_linenumber cs)"

subsection \<open>\<^verbatim>\<open>retrieve_data_list\<close>\<close>

type_synonym fun_acc = "function_profile list \<times> string list"

text \<open>One pass over \<^verbatim>\<open>registry.items()\<close>; the state is
  \<^verbatim>\<open>(function_list, function_name_list)\<close>.\<close>

fun add_functions :: "(string \<times> function_profile) list \<Rightarrow> fun_acc \<Rightarrow> fun_acc" where
  "add_functions [] st = st"
| "add_functions ((key, function) # rest) (function_list, function_name_list) =
     add_functions rest
       (if key \<notin> set function_name_list
        then (function_list @ [function], function_name_list @ [function_name function])
        else (function_list, function_name_list))"

fun collect_profiles ::
  "('cd, 'x) collaborators_scheme \<Rightarrow> ('cd, 'y) fuzzer_profile_scheme list \<Rightarrow>
     calltree_callsite list \<times> fun_acc \<Rightarrow> calltree_callsite list \<times> fun_acc" where
  "collect_profiles E [] st = st"
| "collect_profiles E (profile # rest) (callsite_list, acc) =
     collect_profiles E rest
       ((case function_call_depths profile of
           Some cd \<Rightarrow> callsite_list @ extract_all_callsites E cd
         | None \<Rightarrow> callsite_list),
        add_functions (all_class_functions profile) acc)"

definition retrieve_data_list ::
  "('cd, 'x) collaborators_scheme \<Rightarrow> ('z) project_profile_scheme \<Rightarrow>
     ('cd, 'y) fuzzer_profile_scheme list \<Rightarrow> calltree_callsite list \<times> function_profile list" where
  "retrieve_data_list E proj_profile profiles =
     (case collect_profiles E profiles ([], add_functions (all_functions proj_profile) ([], [])) of
        (callsite_list, function_list, function_name_list) \<Rightarrow> (callsite_list, function_list))"

subsection \<open>\<^verbatim>\<open>map_function_callsite\<close>\<close>

type_synonym callsite_dict = "(string \<times> string list) list"

definition init_dict :: "function_profile list \<Rightarrow> callsite_dict" where
  "init_dict functions = fold (\<lambda>function d. AList.update (function_name function) [] d) functions []"

definition add_callsite :: "calltree_callsite \<Rightarrow> callsite_dict \<Rightarrow> callsite_dict" where
  "add_callsite cs d =
     (let func_name = dst_function_name cs in
      if func_name \<in> set (map fst d)
      then AList.map_entry func_name (\<lambda>v. v @ [descriptor cs]) d
      else d)"

definition map_function_callsite ::
  "function_profile list \<Rightarrow> calltree_callsite list \<Rightarrow> callsite_dict" where
  "map_function_callsite functions callsites =
     map (\<lambda>(key, value). (key, list_set value)) (fold add_callsite callsites (init_dict functions))"

subsection \<open>\<^verbatim>\<open>retrieve_reachable_functions\<close>\<close>

text \<open>\<^verbatim>\<open>function_callsites[func_name]\<close> raises \<^verbatim>\<open>KeyError\<close> on a missing key;
  \<^verbatim>\<open>function_list.extend(callsite_str)\<close> appends the characters of the string,
  each as a string of length one.\<close>

fun reach_items :: "callsite_dict \<Rightarrow> (string \<times> string) list \<Rightarrow> string list \<Rightarrow> error + string list" where
  "reach_items function_callsites [] function_list = Inr function_list"
| "reach_items function_callsites ((func_name, callsite_str) # rest) function_list =
     (case map_of function_callsites func_name of
        None \<Rightarrow> Inl KeyError
      | Some ds \<Rightarrow>
          reach_items function_callsites rest
            (if callsite_str \<in> set ds
             then function_list @ map (\<lambda>c. [c]) callsite_str
             else function_list))"

fun reach_functions :: "callsite_dict \<Rightarrow> function_profile list \<Rightarrow> string list \<Rightarrow> error + string list" where
  "reach_functions function_callsites [] function_list = Inr function_list"
| "reach_functions function_callsites (function # rest) function_list =
     (case reach_items function_callsites (callsite function) function_list of
        Inl e \<Rightarrow> Inl e
      | Inr function_list' \<Rightarrow> reach_functions function_callsites rest function_list')"

definition retrieve_reachable_functions ::
  "function_profile list \<Rightarrow> callsite_dict \<Rightarrow> error + string list" where
  "retrieve_reachable_functions functions function_callsites =
     (case reach_functions function_callsites functions [] of
        Inl e \<Rightarrow> Inl e
      | Inr function_list \<Rightarrow> Inr (list_set function_list))"

subsection \<open>\<^verbatim>\<open>filter_function_list\<close>\<close>

text \<open>The key \<^verbatim>\<open>(package, func_name)\<close> derived for one function; \<open>None\<close> is the
  \<^verbatim>\<open>continue\<close> of an unsupported language. Indexing an empty list and unpacking
  a list that has not two elements raise.\<close>

definition sink_key ::
  "('cd, 'x) collaborators_scheme \<Rightarrow> string \<Rightarrow> function_profile \<Rightarrow> error + (string \<times> string) option" where
  "sink_key E lang fd =
     (if lang = ''c-cpp'' then Inr (Some ('''', demangle_cpp_func E (function_name fd)))
      else if lang = ''python'' then Inr (Some (function_source_file fd, function_name fd))
      else if lang = ''jvm'' then
        (case py_split CHR ''('' (function_name fd) of
           [] \<Rightarrow> Inl IndexError
         | func_name # _ \<Rightarrow>
             if CHR ''.'' \<in> set func_name then
               (case py_rsplit1 CHR ''.'' func_name of
                  [package, func_name'] \<Rightarrow> Inr (Some (package, func_name'))
                | _ \<Rightarrow> Inl ValueError)
             else Inr (Some (''default'', func_name)))
      else Inr None)"

fun filter_loop ::
  "('cd, 'x) collaborators_scheme \<Rightarrow> string \<Rightarrow> function_profile list \<Rightarrow> function_profile list \<Rightarrow>
     error + function_profile list" where
  "filter_loop E lang [] function_list = Inr function_list"
| "filter_loop E lang (fd # rest) function_list =
     (case sink_key E lang fd of
        Inl e \<Rightarrow> Inl e
      | Inr None \<Rightarrow> filter_loop E lang rest function_list
      | Inr (Some k) \<Rightarrow>
          (case map_of SINK_FUNCTION lang of
             None \<Rightarrow> Inl KeyError
           | Some sinks \<Rightarrow>
               filter_loop E lang rest
                 (if k \<in> set sinks then function_list @ [fd] else function_list)))"

definition filter_function_list ::
  "('cd, 'x) collaborators_scheme \<Rightarrow> function_profile list \<Rightarrow> string \<Rightarrow> error + function_profile list" where
  "filter_function_list E functions lang = filter_loop E lang functions []"

subsection \<open>\<^verbatim>\<open>analysis_func\<close>\<close>

text \<open>
  The loop over \<^verbatim>\<open>fd.incoming_references\<close> for one called location. The result
  is \<^verbatim>\<open>fuzzer_hit\<close> together with the queries put to
  \<^verbatim>\<open>coverage.is_func_lineno_hit\<close>, in order. A \<^verbatim>\<open>ValueError\<close> of \<^verbatim>\<open>int\<close> is
  caught and the loop continues; the \<^verbatim>\<open>IndexError\<close> of \<^verbatim>\<open>split(":")[1]\<close> is not
  caught.
\<close>

fun hit_loop ::
  "(string \<Rightarrow> int \<Rightarrow> bool) \<Rightarrow> string \<Rightarrow> string list \<Rightarrow> error + bool \<times> (string \<times> int) list" where
  "hit_loop coverage called_location [] = Inr (False, [])"
| "hit_loop coverage called_location (parent_func # rest) =
     (case py_split CHR '':'' called_location of
        _ # seg # _ \<Rightarrow>
          (case py_int seg of
             None \<Rightarrow> hit_loop coverage called_location rest
           | Some lineno \<Rightarrow>
               if coverage parent_func lineno then Inr (True, [(parent_func, lineno)])
               else (case hit_loop coverage called_location rest of
                       Inl e \<Rightarrow> Inl e
                     | Inr (fuzzer_hit, queries) \<Rightarrow> Inr (fuzzer_hit, (parent_func, lineno) # queries)))
      | _ \<Rightarrow> Inl IndexError)"

text \<open>\<^verbatim>\<open>list_of_fuzzer_covered\<close> for one sink and one called location.\<close>

definition list_of_fuzzer_covered ::
  "(string \<Rightarrow> int \<Rightarrow> bool) \<Rightarrow> function_profile \<Rightarrow> string \<Rightarrow> error + string list" where
  "list_of_fuzzer_covered coverage fd called_location =
     (case hit_loop coverage called_location (incoming_references fd) of
        Inl e \<Rightarrow> Inl e
      | Inr (fuzzer_hit, queries) \<Rightarrow> Inr (if fuzzer_hit then reached_by_fuzzers fd else ['''']))"

fun location_rows ::
  "('cd, 'x) collaborators_scheme \<Rightarrow> (string \<Rightarrow> int \<Rightarrow> bool) \<Rightarrow> string list \<Rightarrow> function_profile \<Rightarrow>
     string list \<Rightarrow> string \<Rightarrow> error + string" where
  "location_rows E coverage reachable fd [] html_string = Inr html_string"
| "location_rows E coverage reachable fd (called_location # rest) html_string =
     (case list_of_fuzzer_covered coverage fd called_location of
        Inl e \<Rightarrow> Inl e
      | Inr covered \<Rightarrow>
          location_rows E coverage reachable fd rest
            (html_string @ html_table_add_row E
               [function_name fd, called_location,
                str_bool (called_location \<in> set reachable), str_of_list E covered]))"

fun sink_rows ::
  "('cd, 'x) collaborators_scheme \<Rightarrow> (string \<Rightarrow> int \<Rightarrow> bool) \<Rightarrow> callsite_dict \<Rightarrow> string list \<Rightarrow>
     function_profile list \<Rightarrow> string \<Rightarrow> error + string" where
  "sink_rows E coverage function_callsite_dict reachable [] html_string = Inr html_string"
| "sink_rows E coverage function_callsite_dict reachable (fd # rest) html_string =
     (case map_of function_callsite_dict (function_name fd) of
        None \<Rightarrow> Inl KeyError
      | Some locations \<Rightarrow>
          (case location_rows E coverage reachable fd locations html_string of
             Inl e \<Rightarrow> Inl e
           | Inr html_string' \<Rightarrow>
               sink_rows E coverage function_callsite_dict reachable rest html_string'))"

definition section_text :: string where
  "section_text =
     ''<p>'' @
     ''This section shows a chosen list of functions / methods '' @
     ''calls and their relative coverage information. By static '' @
     ''analysis of the target project code, all of these function '' @
     ''call and their caller information, including the source file '' @
     ''or class and line number that initiate the call are captured. '' @
     ''The caller source code file or class and the line number are '' @
     ''shown in column 2 while column 1 is the function name of that '' @
     ''selected functions or methods call. Each occurrent of the target '' @
     ''function call will occuply a separate row. Column 3 of each row '' @
     ''indicate if the target function calls is statically unreachable.'' @
     ''Column 4 lists all fuzzers (or no fuzzers at all) that have '' @
     ''covered that particular system call in  dynamic fuzzing. Those '' @
     ''functions with low to  no reachability and dynamic hit count indicate '' @
     ''missed fuzzing logic to fuzz and track for possible code injection sinks.'' @
     ''</p>''"

definition table_columns :: "(string \<times> string) list" where
  "table_columns =
     [(''Target sink'', ''''),
      (''Callsite location'',
       ''Source file, line number and parent function of this function call. '' @
       ''Based on static analysis.''),
      (''Reached by fuzzer'',
       ''Is this code reachable by any functions? '' @
       ''Based on static analysis.''),
      (''Covered by Fuzzers'',
       ''The specific list of fuzzers that cover this function call. '' @
       ''Based on dynamic analysis.'')]"

text \<open>
  The result is the report string with the table of contents and the table
  list as the call leaves them (both are extended in place by the source). The
  parameters \<^verbatim>\<open>basefolder\<close>, \<^verbatim>\<open>coverage_url\<close> and \<^verbatim>\<open>conclusions\<close> are never
  read. \<^verbatim>\<open>profiles[0]\<close> raises \<^verbatim>\<open>IndexError\<close> on an empty list.
\<close>

definition analysis_func ::
  "('cd, 'x) collaborators_scheme \<Rightarrow> toc \<Rightarrow> string list \<Rightarrow> ('z) project_profile_scheme \<Rightarrow>
     ('cd, 'y) fuzzer_profile_scheme list \<Rightarrow> error + string \<times> toc \<times> string list" where
  "analysis_func E toc_list tables proj_profile profiles =
     (case retrieve_data_list E proj_profile profiles of
        (callsite_list, function_list) \<Rightarrow>
          (let function_callsite_dict = map_function_callsite function_list callsite_list in
           (case retrieve_reachable_functions function_list function_callsite_dict of
              Inl e \<Rightarrow> Inl e
            | Inr reachable_function_list \<Rightarrow>
                (case html_add_header_with_link E ''Function call coverage'' 1 toc_list of
                   (header1, toc1) \<Rightarrow>
                     (case html_add_header_with_link E ''Function in each files in report'' 2 toc1 of
                        (header2, toc2) \<Rightarrow>
                          (let tables' = tables @ [''myTable'' @ str_nat (length tables)];
                               html_string =
                                 ''<div class=\"report-box\">'' @ header1
                                   @ ''<div class=\"collapsible\">'' @ section_text @ header2
                                   @ html_create_table_head E (last tables') table_columns
                           in (case profiles of
                                 [] \<Rightarrow> Inl IndexError
                               | profile0 # _ \<Rightarrow>
                                   (case filter_function_list E function_list (target_lang profile0) of
                                      Inl e \<Rightarrow> Inl e
                                    | Inr sinks \<Rightarrow>
                                        (case sink_rows E (runtime_coverage proj_profile)
                                                function_callsite_dict reachable_function_list
                                                sinks html_string of
                                           Inl e \<Rightarrow> Inl e
                                         | Inr html_string' \<Rightarrow>
                                             Inr (html_string' @ ''</table>'' @ ''</div>''
                                                    @ ''</div>'', toc2, tables'))))))))))"

subsection \<open>Sample inputs\<close>

text \<open>
  Collaborators and profiles on which the theorems below are instantiated: a
  Python project in which \<^verbatim>\<open>run\<close> of \<^verbatim>\<open>main.py\<close> calls \<^verbatim>\<open>os.system\<close> at
  line 42, and profiles that declare a function \<^verbatim>\<open>foo\<close> under a given registry
  key.
\<close>

definition plain_collaborators :: "calltree_callsite list collaborators" where
  "plain_collaborators =
     \<lparr>demangle_cpp_func = (\<lambda>s. s),
      extract_all_callsites = (\<lambda>cs. cs),
      html_add_header_with_link = (\<lambda>title level toc. (title, toc @ [(title, title, level)])),
      html_create_table_head = (\<lambda>name cols. name),
      html_table_add_row = concat,
      str_of_list = concat\<rparr>"

definition named_function :: "string \<Rightarrow> function_profile" where
  "named_function n =
     \<lparr>function_name = n, function_source_file = [], incoming_references = [],
      reached_by_fuzzers = [], callsite = []\<rparr>"

definition sample_sink :: function_profile where
  "sample_sink =
     \<lparr>function_name = ''system'', function_source_file = ''os'',
      incoming_references = [''other'', ''run'', ''late''],
      reached_by_fuzzers = [''fuzzer1'', ''fuzzer2''], callsite = []\<rparr>"

definition sample_caller :: function_profile where
  "sample_caller =
     \<lparr>function_name = ''run'', function_source_file = ''main.py'',
      incoming_references = [], reached_by_fuzzers = [''fuzzer1''],
      callsite = [(''system'', ''main.py#run:42'')]\<rparr>"

definition sample_callsite :: calltree_callsite where
  "sample_callsite =
     CalltreeCallsite (Some ''run'') (Some ''main.py'') 42 ''system'' (Some ''os'') None"

definition sample_project :: project_profile where
  "sample_project =
     \<lparr>all_functions = [(''system'', sample_sink), (''run'', sample_caller)],
      runtime_coverage = (\<lambda>f l. f = ''run'' \<and> l = 42)\<rparr>"

definition sample_profile :: "calltree_callsite list fuzzer_profile" where
  "sample_profile =
     \<lparr>function_call_depths = Some [sample_callsite],
      all_class_functions = [(''run'', sample_caller)],
      target_lang = ''python''\<rparr>"


definition empty_project :: project_profile where
  "empty_project = \<lparr>all_functions = [], runtime_coverage = (\<lambda>f l. False)\<rparr>"

text \<open>A call site at the root of a call tree, and one whose caller is known only
  through its parent node, a C++ function with a qualified name.\<close>

definition root_callsite :: calltree_callsite where
  "root_callsite = CalltreeCallsite None None 12 ''f'' None None"

definition nested_callsite :: calltree_callsite where
  "nested_callsite =
     CalltreeCallsite None None 12 ''f'' None
       (Some (CalltreeCallsite None None 3 ''ns::g'' (Some ''a.cpp'') None))"

section \<open>Properties\<close>

subsection \<open>Splitting strings\<close>

lemma py_split_nonempty: "py_split sep s \<noteq> []"
  by (induction s) (auto split: list.splits)

lemma py_split_first: "\<exists>rest. py_split sep s = takeWhile (\<lambda>c. c \<noteq> sep) s # rest"
  by (induction s) (auto split: list.splits)

lemma py_split_two: "sep \<in> set s \<Longrightarrow> \<exists>a b rest. py_split sep s = a # b # rest"
proof (induction s)
  case Nil
  then show ?case by simp
next
  case (Cons c cs)
  show ?case
  proof (cases "c = sep")
    case True
    obtain w ws where "py_split sep cs = w # ws"
      using py_split_nonempty [of sep cs] by (cases "py_split sep cs") auto
    with True show ?thesis by simp
  next
    case False
    with Cons.prems have "sep \<in> set cs" by simp
    then obtain a b rest where "py_split sep cs = a # b # rest"
      using Cons.IH by blast
    with False show ?thesis by simp
  qed
qed

lemma py_rsplit1_last:
  assumes "sep \<in> set s"
  shows "\<exists>q m. py_rsplit1 sep s = [q, m] \<and> s = q @ sep # m \<and> sep \<notin> set m"
proof -
  let ?P = "\<lambda>c. c \<noteq> sep"
  let ?t = "takeWhile ?P (rev s)"
  let ?d = "dropWhile ?P (rev s)"
  from assms have "sep \<in> set (rev s)" by simp
  then have dne: "?d \<noteq> []" by (metis (mono_tags, lifting) dropWhile_eq_Nil_conv)
  then have hd: "hd ?d = sep" using hd_dropWhile [of ?P "rev s"] by auto
  from dne hd have d: "?d = sep # tl ?d" by (cases ?d) auto
  have "rev s = ?t @ ?d" by simp
  then have "rev s = ?t @ sep # tl ?d" using d by simp
  then have "rev (rev s) = rev (?t @ sep # tl ?d)" by (rule arg_cong)
  then have s: "s = rev (tl ?d) @ sep # rev ?t" by simp
  have "sep \<notin> set ?t" using set_takeWhileD by fastforce
  then have "sep \<notin> set (rev ?t)" by simp
  with s assms show ?thesis unfolding py_rsplit1_def by auto
qed

subsection \<open>The sink key of a JVM method\<close>

lemma sink_key_jvm:
  "sink_key E ''jvm'' fd =
     (let base = takeWhile (\<lambda>c. c \<noteq> CHR ''('') (function_name fd) in
      if CHR ''.'' \<in> set base
      then (case py_rsplit1 CHR ''.'' base of [q, m] \<Rightarrow> Inr (Some (q, m)) | _ \<Rightarrow> Inl ValueError)
      else Inr (Some (''default'', base)))"
proof -
  obtain rest where
    "py_split CHR ''('' (function_name fd) = takeWhile (\<lambda>c. c \<noteq> CHR ''('') (function_name fd) # rest"
    using py_split_first by blast
  then show ?thesis by (simp add: sink_key_def Let_def)
qed

text \<open>
  C7. For the language \<^verbatim>\<open>jvm\<close> the key is derived from the part of the name
  before its first \<^verbatim>\<open>(\<close>. If that part contains a dot, it is split at its last
  dot into qualifier and method (the method has no dot); otherwise the qualifier
  is \<^verbatim>\<open>default\<close> and the method is the whole part. The name
  \<^verbatim>\<open>java.lang.Runtime.exec(Ljava/lang/String;)\<close> gives the qualifier
  \<^verbatim>\<open>java.lang.Runtime\<close> and the method \<^verbatim>\<open>exec\<close>. No name makes the derivation
  raise.
\<close>

theorem jvm_sink_key:
  "(CHR ''.'' \<in> set (takeWhile (\<lambda>c. c \<noteq> CHR ''('') (function_name fd)) \<longrightarrow>
      (\<exists>q m. sink_key E ''jvm'' fd = Inr (Some (q, m))
         \<and> takeWhile (\<lambda>c. c \<noteq> CHR ''('') (function_name fd) = q @ ''.'' @ m
         \<and> CHR ''.'' \<notin> set m))
   \<and> (CHR ''.'' \<notin> set (takeWhile (\<lambda>c. c \<noteq> CHR ''('') (function_name fd)) \<longrightarrow>
        sink_key E ''jvm'' fd =
          Inr (Some (''default'', takeWhile (\<lambda>c. c \<noteq> CHR ''('') (function_name fd))))
   \<and> (function_name fd = ''java.lang.Runtime.exec(Ljava/lang/String;)'' \<longrightarrow>
        sink_key E ''jvm'' fd = Inr (Some (''java.lang.Runtime'', ''exec'')))"
proof (intro conjI impI)
  let ?base = "takeWhile (\<lambda>c. c \<noteq> CHR ''('') (function_name fd)"
  assume dot: "CHR ''.'' \<in> set ?base"
  then obtain q m where qm:
    "py_rsplit1 CHR ''.'' ?base = [q, m]" "?base = q @ CHR ''.'' # m" "CHR ''.'' \<notin> set m"
    using py_rsplit1_last by blast
  have "sink_key E ''jvm'' fd = Inr (Some (q, m))"
    using dot qm(1) by (simp add: sink_key_jvm Let_def)
  with qm show "\<exists>q m. sink_key E ''jvm'' fd = Inr (Some (q, m)) \<and> ?base = q @ ''.'' @ m
      \<and> CHR ''.'' \<notin> set m"
    by auto
next
  assume "CHR ''.'' \<notin> set (takeWhile (\<lambda>c. c \<noteq> CHR ''('') (function_name fd))"
  then show "sink_key E ''jvm'' fd =
      Inr (Some (''default'', takeWhile (\<lambda>c. c \<noteq> CHR ''('') (function_name fd)))"
    by (simp add: sink_key_jvm Let_def)
next
  assume "function_name fd = ''java.lang.Runtime.exec(Ljava/lang/String;)''"
  then show "sink_key E ''jvm'' fd = Inr (Some (''java.lang.Runtime'', ''exec''))"
    by (simp add: sink_key_jvm Let_def py_rsplit1_def)
qed

theorem jvm_sink_key_witness:
  "CHR ''.'' \<in> set (takeWhile (\<lambda>c. c \<noteq> CHR ''('') (function_name (named_function ''a.b(c)'')))
   \<and> (\<exists>q m. sink_key plain_collaborators ''jvm'' (named_function ''a.b(c)'') = Inr (Some (q, m))
         \<and> takeWhile (\<lambda>c. c \<noteq> CHR ''('') (function_name (named_function ''a.b(c)'')) = q @ ''.'' @ m
         \<and> CHR ''.'' \<notin> set m)
   \<and> CHR ''.'' \<notin> set (takeWhile (\<lambda>c. c \<noteq> CHR ''('') (function_name (named_function ''main(x)'')))
   \<and> sink_key plain_collaborators ''jvm'' (named_function ''main(x)'') = Inr (Some (''default'', ''main''))
   \<and> function_name (named_function ''java.lang.Runtime.exec(Ljava/lang/String;)'')
        = ''java.lang.Runtime.exec(Ljava/lang/String;)''
   \<and> sink_key plain_collaborators ''jvm''
         (named_function ''java.lang.Runtime.exec(Ljava/lang/String;)'')
        = Inr (Some (''java.lang.Runtime'', ''exec''))"
proof -
  have h1: "CHR ''.'' \<in> set (takeWhile (\<lambda>c. c \<noteq> CHR ''('') (function_name (named_function ''a.b(c)'')))"
    by (simp add: named_function_def)
  have h2: "CHR ''.'' \<notin> set (takeWhile (\<lambda>c. c \<noteq> CHR ''('') (function_name (named_function ''main(x)'')))"
    by (simp add: named_function_def)
  have h3: "function_name (named_function ''java.lang.Runtime.exec(Ljava/lang/String;)'')
        = ''java.lang.Runtime.exec(Ljava/lang/String;)''"
    by (simp add: named_function_def)
  have m: "takeWhile (\<lambda>c. c \<noteq> CHR ''('') (function_name (named_function ''main(x)'')) = ''main''"
    by (simp add: named_function_def)
  show ?thesis
    using h1 h2 h3 m
      jvm_sink_key [of "named_function ''a.b(c)''" plain_collaborators]
      jvm_sink_key [of "named_function ''main(x)''" plain_collaborators]
      jvm_sink_key [of "named_function ''java.lang.Runtime.exec(Ljava/lang/String;)''" plain_collaborators]
    by simp
qed

subsection \<open>Coverage correlation\<close>










subsection \<open>Aggregation of the function registries\<close>


lemma add_functions_names:
  "\<exists>fl'. add_functions reg (fl, map function_name fl) = (fl', map function_name fl')"
proof (induction reg arbitrary: fl)
  case Nil
  then show ?case by simp
next
  case (Cons e reg)
  obtain key f where e: "e = (key, f)" by (cases e)
  show ?case
  proof (cases "key \<in> set (map function_name fl)")
    case True
    with e Cons.IH [of fl] show ?thesis by simp
  next
    case False
    with e Cons.IH [of "fl @ [f]"] show ?thesis by simp
  qed
qed












subsection \<open>The call-site index\<close>

lemma init_fold_map_of:
  "map_of (fold (\<lambda>function d. AList.update (function_name function) [] d) fs d0) k =
     (if k \<in> function_name ` set fs then Some [] else map_of d0 k)"
  by (induction fs arbitrary: d0) (auto simp: update_conv')

lemma init_fold_keys:
  "fst ` set (fold (\<lambda>function d. AList.update (function_name function) [] d) fs d0) =
     function_name ` set fs \<union> fst ` set d0"
  by (induction fs arbitrary: d0) (auto simp: dom_update)

lemma init_fold_distinct:
  "distinct (map fst d0) \<Longrightarrow>
     distinct (map fst (fold (\<lambda>function d. AList.update (function_name function) [] d) fs d0))"
  by (induction fs arbitrary: d0) (auto simp: distinct_update)

lemma add_callsite_keys: "map fst (add_callsite cs d) = map fst d"
proof -
  have "map fst (AList.map_entry k f d) = map fst d" for k and f :: "string list \<Rightarrow> string list"
    by (induction d) auto
  then show ?thesis by (simp add: add_callsite_def Let_def)
qed

lemma add_callsite_map_of:
  "map_of (add_callsite cs d) k =
     (if k = dst_function_name cs then map_option (\<lambda>v. v @ [descriptor cs]) (map_of d k)
      else map_of d k)"
proof -
  have "dst_function_name cs \<notin> fst ` set d \<Longrightarrow> map_of d (dst_function_name cs) = None"
    by (simp add: map_of_eq_None_iff)
  then show ?thesis
    by (auto simp: add_callsite_def Let_def map_of_map_entry split: option.splits)
qed

lemma add_callsite_unknown:
  "dst_function_name cs \<notin> set (map fst d) \<Longrightarrow> add_callsite cs d = d"
  by (simp add: add_callsite_def)

lemma fold_add_callsite_keys: "map fst (fold add_callsite css d) = map fst d"
  by (induction css arbitrary: d) (auto simp: add_callsite_keys)

lemma fold_add_callsite_map_of:
  "map_of (fold add_callsite css d) k =
     map_option (\<lambda>v. v @ map descriptor (filter (\<lambda>cs. dst_function_name cs = k) css)) (map_of d k)"
proof (induction css arbitrary: d)
  case Nil
  then show ?case by (simp add: option.map_ident)
next
  case (Cons cs css)
  show ?case
    by (cases "map_of d k") (auto simp: Cons.IH add_callsite_map_of)
qed

lemma fold_add_callsite_known:
  "fold add_callsite (filter (\<lambda>cs. dst_function_name cs \<in> set (map fst d)) css) d =
     fold add_callsite css d"
proof (induction css arbitrary: d)
  case Nil
  then show ?case by simp
next
  case (Cons cs css)
  show ?case
  proof (cases "dst_function_name cs \<in> set (map fst d)")
    case True
    have "set (map fst (add_callsite cs d)) = set (map fst d)"
      by (simp only: add_callsite_keys)
    with True Cons.IH [of "add_callsite cs d"] show ?thesis by simp
  next
    case False
    with Cons.IH [of d] show ?thesis by (simp add: add_callsite_unknown)
  qed
qed

lemma map_fst_list_set:
  "map fst (map (\<lambda>(key, value). (key, list_set value)) d) = map fst d"
  by (induction d) auto

lemma map_function_callsite_fst:
  "map fst (map_function_callsite fs callsites) = map fst (init_dict fs)"
  unfolding map_function_callsite_def map_fst_list_set fold_add_callsite_keys ..

lemma init_dict_keys: "set (map fst (init_dict fs)) = function_name ` set fs"
  using init_fold_keys [of fs "[]"] by (simp add: init_dict_def)

lemma map_function_callsite_keys:
  "set (map fst (map_function_callsite fs callsites)) = function_name ` set fs"
  by (simp only: map_function_callsite_fst init_dict_keys)

lemma map_function_callsite_distinct:
  "distinct (map fst (map_function_callsite fs callsites))"
  using init_fold_distinct [of "[]" fs]
  by (simp add: map_function_callsite_fst init_dict_def)

lemma map_function_callsite_lookup:
  "map_of (map_function_callsite fs callsites) k =
     (if k \<in> function_name ` set fs
      then Some (list_set (map descriptor (filter (\<lambda>cs. dst_function_name cs = k) callsites)))
      else None)"
  by (simp add: map_function_callsite_def map_of_map fold_add_callsite_map_of init_dict_def
      init_fold_map_of)

lemma map_function_callsite_known:
  "map_function_callsite fs
     (filter (\<lambda>cs. dst_function_name cs \<in> function_name ` set fs) callsites) =
   map_function_callsite fs callsites"
proof -
  have "set (map fst (init_dict fs)) = function_name ` set fs"
    by (rule init_dict_keys)
  then show ?thesis
    using fold_add_callsite_known [of "init_dict fs" callsites]
    by (simp add: map_function_callsite_def)
qed

text \<open>
  C10 (as amended). The keys of the index are exactly the names of the functions
  given, each once. Under a known name the index holds, without repetition, the
  descriptors of the call sites whose destination is that name, and nothing else;
  no other name is a key. A call site whose destination is not a known name adds
  nothing: the index is the one built from the call sites with a known
  destination alone.
\<close>

theorem index_keys_and_entries:
  "set (map fst (map_function_callsite fs callsites)) = function_name ` set fs
   \<and> distinct (map fst (map_function_callsite fs callsites))
   \<and> (k \<in> function_name ` set fs \<longrightarrow>
        (\<exists>ds. map_of (map_function_callsite fs callsites) k = Some ds
           \<and> distinct ds
           \<and> set ds = descriptor ` {cs \<in> set callsites. dst_function_name cs = k}))
   \<and> (k \<notin> function_name ` set fs \<longrightarrow>
        map_of (map_function_callsite fs callsites) k = None)
   \<and> map_function_callsite fs
        (filter (\<lambda>cs. dst_function_name cs \<in> function_name ` set fs) callsites) =
      map_function_callsite fs callsites"
  using map_function_callsite_keys [of fs callsites]
    map_function_callsite_distinct [of fs callsites]
    map_function_callsite_known [of fs callsites]
  by (auto simp: map_function_callsite_lookup list_set_def)

text \<open>The sample project: \<^verbatim>\<open>system\<close> is a key, \<^verbatim>\<open>exec\<close> is not.\<close>

theorem index_keys_and_entries_witness:
  "''system'' \<in> function_name ` set [sample_sink, sample_caller]
   \<and> (\<exists>ds. map_of (map_function_callsite [sample_sink, sample_caller] [sample_callsite]) ''system'' = Some ds
         \<and> distinct ds
         \<and> set ds = descriptor ` {cs \<in> set [sample_callsite]. dst_function_name cs = ''system''})
   \<and> ''exec'' \<notin> function_name ` set [sample_sink, sample_caller]
   \<and> map_of (map_function_callsite [sample_sink, sample_caller] [sample_callsite]) ''exec'' = None"
proof -
  have a: "''system'' \<in> function_name ` set [sample_sink, sample_caller]"
    by (simp add: sample_sink_def)
  have b: "''exec'' \<notin> function_name ` set [sample_sink, sample_caller]"
    by (simp add: sample_sink_def sample_caller_def)
  show ?thesis
    using a b
      index_keys_and_entries [of "[sample_sink, sample_caller]" "[sample_callsite]" "''system''"]
      index_keys_and_entries [of "[sample_sink, sample_caller]" "[sample_callsite]" "''exec''"]
    by blast
qed

text \<open>
  The descriptor of a discarded call site can still stand in the index: it does
  not name the destination, so a call site of a known function on the same line
  of the same file has the same descriptor.
\<close>

theorem index_discard_counterexample:
  "dst_function_name (CalltreeCallsite None (Some ''a.c'') 7 ''g'' None None)
      \<notin> set (map function_name [named_function ''f''])
   \<and> map_function_callsite [named_function ''f'']
        [CalltreeCallsite None (Some ''a.c'') 7 ''f'' None None,
         CalltreeCallsite None (Some ''a.c'') 7 ''g'' None None]
      = [(''f'', [''a.c#a.c:7''])]
   \<and> descriptor (CalltreeCallsite None (Some ''a.c'') 7 ''g'' None None) = ''a.c#a.c:7''"
  by (simp add: map_function_callsite_def init_dict_def add_callsite_def descriptor_def
      get_source_file_def get_parent_func_name_def str_int_def list_set_def named_function_def)

subsection \<open>Completion of the analysis\<close>

lemma reach_items_total:
  "\<forall>(k, v) \<in> set items. map_of idx k \<noteq> None \<Longrightarrow> \<exists>r. reach_items idx items acc = Inr r"
  by (induction idx items acc rule: reach_items.induct) auto

lemma reach_functions_total:
  "\<forall>f \<in> set fs. \<forall>(k, v) \<in> set (callsite f). map_of idx k \<noteq> None \<Longrightarrow>
     \<exists>r. reach_functions idx fs acc = Inr r"
proof (induction fs arbitrary: acc)
  case Nil
  then show ?case by simp
next
  case (Cons f fs)
  then obtain r where "reach_items idx (callsite f) acc = Inr r"
    using reach_items_total [of "callsite f" idx acc] by auto
  with Cons show ?case by simp
qed

lemma retrieve_reachable_functions_total:
  "\<forall>f \<in> set fs. \<forall>(k, v) \<in> set (callsite f). map_of idx k \<noteq> None \<Longrightarrow>
     \<exists>r. retrieve_reachable_functions fs idx = Inr r"
  using reach_functions_total [of fs idx "[]"]
  by (auto simp: retrieve_reachable_functions_def)

lemma sink_key_total: "\<exists>r. sink_key E lang fd = Inr r"
proof (cases "lang = ''jvm''")
  case True
  show ?thesis
  proof (cases "CHR ''.'' \<in> set (takeWhile (\<lambda>c. c \<noteq> CHR ''('') (function_name fd))")
    case dot: True
    then obtain q m where "py_rsplit1 CHR ''.'' (takeWhile (\<lambda>c. c \<noteq> CHR ''('') (function_name fd)) = [q, m]"
      using py_rsplit1_last by blast
    with True dot show ?thesis by (simp add: sink_key_jvm Let_def)
  next
    case False
    with True show ?thesis by (simp add: sink_key_jvm Let_def)
  qed
next
  case False
  then show ?thesis by (simp add: sink_key_def)
qed

lemma sink_key_catalogue:
  "sink_key E lang fd = Inr (Some k) \<Longrightarrow> \<exists>sinks. map_of SINK_FUNCTION lang = Some sinks"
proof -
  assume k: "sink_key E lang fd = Inr (Some k)"
  have "lang = ''c-cpp'' \<or> lang = ''python'' \<or> lang = ''jvm''"
  proof (rule ccontr)
    assume "\<not> ?thesis"
    then have "sink_key E lang fd = Inr None" by (simp add: sink_key_def)
    with k show False by simp
  qed
  then show ?thesis by (auto simp: SINK_FUNCTION_def)
qed

lemma filter_loop_total:
  "\<exists>r. filter_loop E lang fs acc = Inr r \<and> set r \<subseteq> set acc \<union> set fs"
proof (induction fs arbitrary: acc)
  case Nil
  then show ?case by simp
next
  case (Cons fd fs)
  obtain r where r: "sink_key E lang fd = Inr r" using sink_key_total by blast
  show ?case
  proof (cases r)
    case None
    with r Cons.IH [of acc] show ?thesis by auto
  next
    case (Some k)
    with r obtain sinks where s: "map_of SINK_FUNCTION lang = Some sinks"
      using sink_key_catalogue by blast
    from Cons.IH [of "if k \<in> set sinks then acc @ [fd] else acc"]
    show ?thesis using r Some s by (auto split: if_splits)
  qed
qed

lemma hit_loop_total:
  assumes "CHR '':'' \<in> set loc"
  shows "\<exists>r. hit_loop cov loc refs = Inr r"
proof -
  obtain a b rest where s: "py_split CHR '':'' loc = a # b # rest"
    using py_split_two [OF assms] by blast
  show ?thesis
    by (induction refs) (auto simp: s split: option.splits)
qed

lemma location_rows_total:
  "\<forall>loc \<in> set locs. CHR '':'' \<in> set loc \<Longrightarrow>
     \<exists>r. location_rows E cov reachable fd locs html = Inr r"
proof (induction locs arbitrary: html)
  case Nil
  then show ?case by simp
next
  case (Cons loc locs)
  then obtain h where "hit_loop cov loc (incoming_references fd) = Inr h"
    using hit_loop_total [of loc cov "incoming_references fd"] by auto
  then obtain c where "list_of_fuzzer_covered cov fd loc = Inr c"
    by (cases h) (simp add: list_of_fuzzer_covered_def)
  with Cons show ?case by simp
qed

lemma sink_rows_total:
  "\<forall>fd \<in> set sinks. \<exists>locs. map_of d (function_name fd) = Some locs
        \<and> (\<forall>loc \<in> set locs. CHR '':'' \<in> set loc) \<Longrightarrow>
     \<exists>r. sink_rows E cov d reachable sinks html = Inr r"
proof (induction sinks arbitrary: html)
  case Nil
  then show ?case by simp
next
  case (Cons fd sinks)
  then obtain locs where l: "map_of d (function_name fd) = Some locs"
    "\<forall>loc \<in> set locs. CHR '':'' \<in> set loc" by auto
  then obtain r where "location_rows E cov reachable fd locs html = Inr r"
    using location_rows_total by blast
  with l Cons show ?case by simp
qed

lemma descriptor_colon: "CHR '':'' \<in> set (descriptor cs)"
  by (simp add: descriptor_def)

lemma index_entries_colon:
  assumes "f \<in> set fs"
  shows "\<exists>locs. map_of (map_function_callsite fs css) (function_name f) = Some locs
        \<and> (\<forall>loc \<in> set locs. CHR '':'' \<in> set loc)"
  using assms by (auto simp: map_function_callsite_lookup list_set_def descriptor_colon)

text \<open>
  C6 (as amended). When the list of profiles is not empty and every callee named
  in the outgoing-call mapping of an aggregated function is itself the name of an
  aggregated function, the analysis returns a report string.
\<close>

theorem analysis_completes:
  assumes "profiles \<noteq> []"
    and "\<forall>f \<in> set (snd (retrieve_data_list E proj profiles)).
           \<forall>(k, v) \<in> set (callsite f).
             k \<in> function_name ` set (snd (retrieve_data_list E proj profiles))"
  shows "\<exists>html toc' tables'. analysis_func E toc_list tables proj profiles = Inr (html, toc', tables')"
proof -
  obtain cl fl where data: "retrieve_data_list E proj profiles = (cl, fl)"
    by (cases "retrieve_data_list E proj profiles")
  let ?d = "map_function_callsite fl cl"
  from assms(2) data have "\<forall>f \<in> set fl. \<forall>(k, v) \<in> set (callsite f). k \<in> function_name ` set fl"
    by simp
  then have "\<forall>f \<in> set fl. \<forall>(k, v) \<in> set (callsite f). map_of ?d k \<noteq> None"
    by (fastforce simp: map_function_callsite_lookup)
  then obtain reach where reach: "retrieve_reachable_functions fl ?d = Inr reach"
    using retrieve_reachable_functions_total by blast
  obtain p ps where p: "profiles = p # ps" using assms(1) by (cases profiles) auto
  obtain sinks where sinks: "filter_function_list E fl (target_lang p) = Inr sinks" "set sinks \<subseteq> set fl"
    using filter_loop_total [of E "target_lang p" fl "[]"] by (auto simp: filter_function_list_def)
  have "\<forall>fd \<in> set sinks. \<exists>locs. map_of ?d (function_name fd) = Some locs
        \<and> (\<forall>loc \<in> set locs. CHR '':'' \<in> set loc)"
    using sinks(2) index_entries_colon by blast
  then have rows: "\<exists>r. sink_rows E cov ?d reach sinks html = Inr r" for cov html
    by (rule sink_rows_total)
  obtain h1 t1 where h1: "html_add_header_with_link E ''Function call coverage'' 1 toc_list = (h1, t1)"
    by (cases "html_add_header_with_link E ''Function call coverage'' 1 toc_list")
  obtain h2 t2 where h2: "html_add_header_with_link E ''Function in each files in report'' 2 t1 = (h2, t2)"
    by (cases "html_add_header_with_link E ''Function in each files in report'' 2 t1")
  define tables' where "tables' = tables @ [''myTable'' @ str_nat (length tables)]"
  define html0 where "html0 =
    ''<div class=\"report-box\">'' @ h1 @ ''<div class=\"collapsible\">'' @ section_text
      @ h2 @ html_create_table_head E (last tables') table_columns"
  obtain r where r: "sink_rows E (runtime_coverage proj) ?d reach sinks html0 = Inr r"
    using rows by blast
  have "analysis_func E toc_list tables proj profiles =
      Inr (r @ ''</table>'' @ ''</div>'' @ ''</div>'', t2, tables')"
    unfolding analysis_func_def data prod.case Let_def reach sum.case h1 h2
      tables'_def [symmetric] html0_def [symmetric]
    by (simp add: p sinks(1) r)
  then show ?thesis by blast
qed

text \<open>The sample project with its one profile.\<close>

theorem analysis_completes_witness:
  "[sample_profile] \<noteq> []
   \<and> snd (retrieve_data_list plain_collaborators sample_project [sample_profile])
       = [sample_sink, sample_caller]
   \<and> (\<exists>html toc' tables'.
         analysis_func plain_collaborators [] [] sample_project [sample_profile]
           = Inr (html, toc', tables'))"
proof -
  have e: "snd (retrieve_data_list plain_collaborators sample_project [sample_profile])
       = [sample_sink, sample_caller]"
    by (simp add: retrieve_data_list_def sample_project_def sample_profile_def
        sample_sink_def sample_caller_def)
  have h: "\<forall>f \<in> set (snd (retrieve_data_list plain_collaborators sample_project [sample_profile])).
           \<forall>(k, v) \<in> set (callsite f).
             k \<in> function_name ` set (snd (retrieve_data_list plain_collaborators sample_project [sample_profile]))"
    unfolding e by (simp add: sample_sink_def sample_caller_def)
  have n: "[sample_profile] \<noteq> []" by simp
  show ?thesis
    using n e analysis_completes [OF n h, of "[]" "[]"] by blast
qed

text \<open>With no profile at all, \<^verbatim>\<open>profiles[0]\<close> raises.\<close>

theorem analysis_empty_profiles_counterexample:
  "analysis_func plain_collaborators [] [] empty_project ([] :: calltree_callsite list fuzzer_profile list)
     = Inl IndexError"
  by (simp add: analysis_func_def retrieve_data_list_def empty_project_def
      map_function_callsite_def init_dict_def retrieve_reachable_functions_def list_set_def
      plain_collaborators_def)

subsection \<open>Where the code departs from its description\<close>

lemma reach_items_characters:
  "reach_items idx items acc = Inr r \<Longrightarrow> \<forall>x \<in> set acc. length x = 1 \<Longrightarrow>
     \<forall>x \<in> set r. length x = 1"
proof (induction items arbitrary: acc)
  case Nil
  then show ?case by simp
next
  case (Cons e items)
  obtain k v where e: "e = (k, v)" by (cases e)
  from Cons.prems(1) e obtain ds where ds: "map_of idx k = Some ds"
    by (cases "map_of idx k") auto
  let ?acc = "if v \<in> set ds then acc @ map (\<lambda>c. [c]) v else acc"
  from Cons.prems(1) e ds have "reach_items idx items ?acc = Inr r" by simp
  moreover from Cons.prems(2) have "\<forall>x \<in> set ?acc. length x = 1" by auto
  ultimately show ?case by (rule Cons.IH)
qed

lemma reach_functions_characters:
  "reach_functions idx fs acc = Inr r \<Longrightarrow> \<forall>x \<in> set acc. length x = 1 \<Longrightarrow>
     \<forall>x \<in> set r. length x = 1"
proof (induction fs arbitrary: acc)
  case Nil
  then show ?case by simp
next
  case (Cons f fs)
  from Cons.prems(1) obtain acc' where a: "reach_items idx (callsite f) acc = Inr acc'"
    and b: "reach_functions idx fs acc' = Inr r"
    by (auto split: sum.splits)
  from a Cons.prems(2) have "\<forall>x \<in> set acc'. length x = 1"
    by (rule reach_items_characters)
  with b show ?case by (rule Cons.IH)
qed

text \<open>Whatever the resolver returns holds strings of one character only.\<close>

lemma reachable_single_characters:
  "retrieve_reachable_functions fs idx = Inr r \<Longrightarrow> x \<in> set r \<Longrightarrow> length x = 1"
  using reach_functions_characters [of idx fs "[]"]
  by (auto simp: retrieve_reachable_functions_def list_set_def split: sum.splits)

text \<open>
  C1. The sample caller records the call \<^verbatim>\<open>main.py#run:42\<close> to \<^verbatim>\<open>system\<close>, and
  the index holds that descriptor under \<^verbatim>\<open>system\<close>. The resolver returns the
  characters of the descriptor, not the descriptor: \<^verbatim>\<open>extend\<close> stands where
  \<^verbatim>\<open>append\<close> was meant.
\<close>

theorem reachable_holds_characters:
  "callsite sample_caller = [(''system'', ''main.py#run:42'')]
   \<and> map_of [(''system'', [''main.py#run:42'']), (''run'', [])] ''system'' = Some [''main.py#run:42'']
   \<and> retrieve_reachable_functions [sample_sink, sample_caller]
         [(''system'', [''main.py#run:42'']), (''run'', [])]
       = Inr [''m'', ''a'', ''i'', ''.'', ''p'', ''y'', ''#'', ''r'', ''u'', ''n'', '':'', ''4'', ''2'']"
  by (simp add: retrieve_reachable_functions_def list_set_def sample_sink_def sample_caller_def)

text \<open>
  C2. The sample call site has the source function \<^verbatim>\<open>run\<close> and the source file
  \<^verbatim>\<open>main.py\<close>. The caller segment of its descriptor is the source file:
  \<^verbatim>\<open>_get_parent_func_name\<close> reads \<^verbatim>\<open>src_function_source_file\<close>, and never the
  source function's name.
\<close>

theorem caller_segment_is_source_file:
  "src_function_name sample_callsite = Some ''run''
   \<and> get_parent_func_name sample_callsite = Some ''main.py''
   \<and> descriptor sample_callsite = ''main.py#main.py:42''
   \<and> get_parent_func_name (CalltreeCallsite name1 file line dst dst_file parent)
       = get_parent_func_name (CalltreeCallsite name2 file line dst dst_file parent)"
  by (simp add: sample_callsite_def descriptor_def get_source_file_def get_parent_func_name_def
      str_int_def)

lemma reach_items_error: "reach_items idx items acc = Inl e \<Longrightarrow> e = KeyError"
proof (induction items arbitrary: acc)
  case Nil
  then show ?case by simp
next
  case (Cons a items)
  obtain k v where a: "a = (k, v)" by (cases a)
  show ?case
  proof (cases "map_of idx k")
    case None
    with Cons.prems a show ?thesis by simp
  next
    case (Some ds)
    with Cons.prems a
    have "reach_items idx items (if v \<in> set ds then acc @ map (\<lambda>c. [c]) v else acc) = Inl e"
      by simp
    then show ?thesis by (rule Cons.IH)
  qed
qed

lemma reach_items_missing:
  "(k, v) \<in> set items \<Longrightarrow> map_of idx k = None \<Longrightarrow> reach_items idx items acc = Inl KeyError"
proof (induction items arbitrary: acc)
  case Nil
  then show ?case by simp
next
  case (Cons a items)
  obtain k' v' where a: "a = (k', v')" by (cases a)
  show ?case
  proof (cases "map_of idx k'")
    case None
    with a show ?thesis by simp
  next
    case (Some ds)
    with Cons.prems a have "(k, v) \<in> set items" by auto
    from Cons.IH [OF this Cons.prems(2)] a Some show ?thesis by simp
  qed
qed

lemma reach_functions_missing:
  "f \<in> set fs \<Longrightarrow> (k, v) \<in> set (callsite f) \<Longrightarrow> map_of idx k = None \<Longrightarrow>
     reach_functions idx fs acc = Inl KeyError"
proof (induction fs arbitrary: acc)
  case Nil
  then show ?case by simp
next
  case (Cons g fs)
  show ?case
  proof (cases "reach_items idx (callsite g) acc")
    case (Inl e)
    then have "e = KeyError" by (rule reach_items_error)
    with Inl show ?thesis by simp
  next
    case (Inr acc')
    have "f \<noteq> g"
    proof
      assume "f = g"
      with Cons.prems have "reach_items idx (callsite g) acc = Inl KeyError"
        using reach_items_missing by blast
      with Inr show False by simp
    qed
    with Cons.prems have "f \<in> set fs" by simp
    from Cons.IH [OF this Cons.prems(2,3)] Inr show ?thesis by simp
  qed
qed

text \<open>Whenever a recorded callee is no key of the index, the resolver raises.\<close>

lemma missing_callee_key_error:
  "f \<in> set fs \<Longrightarrow> (k, v) \<in> set (callsite f) \<Longrightarrow> map_of idx k = None \<Longrightarrow>
     retrieve_reachable_functions fs idx = Inl KeyError"
  using reach_functions_missing [of f fs k v idx "[]"]
  by (simp add: retrieve_reachable_functions_def)

text \<open>
  C3. The only known function is the sample caller, which records a call to
  \<^verbatim>\<open>system\<close>; \<^verbatim>\<open>system\<close> is no key of the index built for it, and the resolver
  raises \<^verbatim>\<open>KeyError\<close>.
\<close>

theorem reachable_missing_callee_raises:
  "map_function_callsite [sample_caller] [sample_callsite] = [(''run'', [])]
   \<and> callsite sample_caller = [(''system'', ''main.py#run:42'')]
   \<and> retrieve_reachable_functions [sample_caller]
         (map_function_callsite [sample_caller] [sample_callsite]) = Inl KeyError"
  by (simp add: retrieve_reachable_functions_def map_function_callsite_def init_dict_def
      add_callsite_def list_set_def sample_caller_def sample_callsite_def)

text \<open>
  C4. The descriptor of a call site whose caller is the C++ function
  \<^verbatim>\<open>ns::g\<close> has three colons. Its suffix after the last colon is the line number
  12, and line 12 of the caller is covered; the correlator reads the segment
  after the first colon, which is empty, and reports no hit without a query.
\<close>

theorem lineno_is_second_segment:
  "descriptor nested_callsite = ''a.cpp#ns::g:12''
   \<and> py_split CHR '':'' ''a.cpp#ns::g:12'' = [''a.cpp#ns'', '''', ''g'', ''12'']
   \<and> py_int ''12'' = Some 12
   \<and> py_int '''' = None
   \<and> hit_loop (\<lambda>f l. f = ''ns::g'' \<and> l = 12) ''a.cpp#ns::g:12'' [''ns::g''] = Inr (False, [])"
  by (simp add: nested_callsite_def descriptor_def get_source_file_def get_parent_func_name_def
      str_int_def py_int_def py_strip_def py_isspace_def is_digit_def digit_val_def)

text \<open>Without a parent, a falsy source file is returned as it is.\<close>

lemma get_source_file_no_parent:
  "parent_calltree_callsite cs = None \<Longrightarrow> get_source_file cs = src_function_source_file cs"
  by (simp add: get_source_file_def Let_def)

text \<open>
  C5. For a call site with no source file and no parent, \<^verbatim>\<open>_get_source_file\<close>
  returns \<^verbatim>\<open>None\<close>, and the source-file segment of the descriptor is the text
  \<^verbatim>\<open>None\<close>, not the empty string.
\<close>

theorem root_callsite_source_file:
  "src_function_source_file root_callsite = None
   \<and> parent_calltree_callsite root_callsite = None
   \<and> get_source_file root_callsite = None
   \<and> descriptor root_callsite = ''None#None:12''"
  by (simp add: root_callsite_def descriptor_def get_source_file_def get_parent_func_name_def
      str_int_def)

end
